theory Spec2Isabelle
  imports Main
begin

section \<open>JavaScript values, errors and responses\<close>

text \<open>
  The controller \<^verbatim>\<open>src/controllers/user.controller.js\<close> passes JavaScript values around:
  strings, \<^verbatim>\<open>undefined\<close>, \<^verbatim>\<open>null\<close>, functions (a method that is read but not called) and
  object literals. Object literals keep their keys in the order they are written.
\<close>

datatype json =
    JUndefined
  | JNull
  | JString string
  | JNumber nat
  | JFunction string
  | JObject "(string \<times> json) list"

text \<open>Property read \<^verbatim>\<open>obj.key\<close> and the destructuring \<^verbatim>\<open>const {key} = obj\<close>: a key the
  object does not have reads as \<^verbatim>\<open>undefined\<close>.\<close>

fun get_prop :: "json \<Rightarrow> string \<Rightarrow> json" where
  "get_prop (JObject kvs) k = (case map_of kvs k of None \<Rightarrow> JUndefined | Some v \<Rightarrow> v)"
| "get_prop v k = JUndefined"

fun has_prop :: "json \<Rightarrow> string \<Rightarrow> bool" where
  "has_prop (JObject kvs) k = (map_of kvs k \<noteq> None)"
| "has_prop v k = False"

text \<open>Truthiness of a value that is a string or \<^verbatim>\<open>undefined\<close>: only a non-empty string
  is truthy.\<close>

definition truthy :: "string option \<Rightarrow> bool" where
  "truthy v = (case v of None \<Rightarrow> False | Some s \<Rightarrow> s \<noteq> [])"

text \<open>\<^verbatim>\<open>a || b\<close> on such values.\<close>

definition js_or :: "string option \<Rightarrow> string option \<Rightarrow> string option" where
  "js_or a b = (if truthy a then a else b)"

text \<open>
  What a handler throws: an \<^verbatim>\<open>ApiError\<close> built by the controller (status code and message),
  or any other exception with its message (a \<^verbatim>\<open>TypeError\<close>, a rejected promise of the
  database driver, an error of the token library).
\<close>

datatype failure = ApiError nat string | Thrown string

fun error_message :: "failure \<Rightarrow> string" where
  "error_message (ApiError sc m) = m"
| "error_message (Thrown m) = m"

text \<open>Modelled from the spec: \<^verbatim>\<open>utils/ApiResponse.js\<close> is not part of the sources; the
  success envelope is \<^verbatim>\<open>{statusCode, data, message, success: true}\<close>.\<close>

record apiResponse =
  statusCode :: nat
  data :: json
  message :: string
  success :: bool

definition ApiResponse :: "nat \<Rightarrow> json \<Rightarrow> string \<Rightarrow> apiResponse" where
  "ApiResponse sc d m = \<lparr>statusCode = sc, data = d, message = m, success = True\<rparr>"

record cookie_options =
  httpOnly :: bool
  secure :: bool

text \<open>The Express response after the chain \<^verbatim>\<open>res.status(..).cookie(..).clearCookie(..).json(..)\<close>:
  the cookies are kept in the order of the calls, each with the value it was given.\<close>

record response =
  status :: nat
  cookies :: "(string \<times> json \<times> cookie_options) list"
  clearedCookies :: "(string \<times> cookie_options) list"
  body :: apiResponse

definition options :: cookie_options where
  "options = \<lparr>httpOnly = True, secure = True\<rparr>"

fun cookie_value :: "response \<Rightarrow> string \<Rightarrow> json" where
  "cookie_value r name = (case map_of (cookies r) name of None \<Rightarrow> JUndefined | Some (v, opts) \<Rightarrow> v)"


section \<open>The user collection\<close>

text \<open>
  A document of the \<^verbatim>\<open>User\<close> collection, with the fields the controller writes and reads.
  \<^verbatim>\<open>password\<close> holds the hash; \<^verbatim>\<open>refreshToken\<close> is \<^verbatim>\<open>None\<close> when the document has no
  such field. The collection is the list of its documents in insertion order.
\<close>

record user =
  user_id :: nat
  username :: string
  email :: string
  fullName :: string
  avatar :: string
  coverImage :: string
  password :: string
  refreshToken :: "string option"

type_synonym store = "user list"

text \<open>\<^verbatim>\<open>User.findOne({$or: [{username}, {email}]})\<close>: the first document that matches one of
  the two fields; a field that is \<^verbatim>\<open>undefined\<close> in the request matches no document.\<close>

definition findOne :: "string option \<Rightarrow> string option \<Rightarrow> store \<Rightarrow> user option" where
  "findOne un em us = find (\<lambda>u. Some (username u) = un \<or> Some (email u) = em) us"

text \<open>\<^verbatim>\<open>User.findById(id)\<close>; an \<^verbatim>\<open>undefined\<close> id finds nothing.\<close>

definition findById :: "nat option \<Rightarrow> store \<Rightarrow> user option" where
  "findById i us = (case i of None \<Rightarrow> None | Some n \<Rightarrow> find (\<lambda>u. user_id u = n) us)"

text \<open>Writing the \<^verbatim>\<open>refreshToken\<close> field of the document with a given \<^verbatim>\<open>_id\<close> (one
  document is written, the first with that id).\<close>

fun set_refreshToken :: "nat \<Rightarrow> string option \<Rightarrow> store \<Rightarrow> store" where
  "set_refreshToken n v [] = []"
| "set_refreshToken n v (u # us) =
     (if user_id u = n then u\<lparr>refreshToken := v\<rparr> # us else u # set_refreshToken n v us)"

text \<open>The document as an object, and the projection \<^verbatim>\<open>.select("-password -refreshToken")\<close>,
  which drops the named fields.\<close>

definition toObject :: "user \<Rightarrow> (string \<times> json) list" where
  "toObject u =
     [(''_id'', JNumber (user_id u)),
      (''username'', JString (username u)),
      (''email'', JString (email u)),
      (''fullName'', JString (fullName u)),
      (''avatar'', JString (avatar u)),
      (''coverImage'', JString (coverImage u)),
      (''password'', JString (password u))]
     @ (case refreshToken u of None \<Rightarrow> [] | Some t \<Rightarrow> [(''refreshToken'', JString t)])"

definition select_minus :: "string list \<Rightarrow> user option \<Rightarrow> json" where
  "select_minus excluded doc =
     (case doc of
        None \<Rightarrow> JNull
      | Some u \<Rightarrow> JObject (filter (\<lambda>kv. fst kv \<notin> set excluded) (toObject u)))"

definition fresh_id :: "store \<Rightarrow> nat" where
  "fresh_id us = Suc (fold max (map user_id us) 0)"


section \<open>The collaborators of one request\<close>

text \<open>
  The model file, the upload helper, the token library and the database driver are not part
  of the sources. What they answer while one request is handled is a parameter of the
  handler: whether each awaited database call resolves or rejects, what the two signing
  methods of a document return (\<^verbatim>\<open>None\<close>: the method throws), what \<^verbatim>\<open>jwt.verify\<close> decodes
  (\<^verbatim>\<open>Inl\<close>: it throws an error with that message; \<^verbatim>\<open>Inr\<close>: the \<^verbatim>\<open>_id\<close> of the payload,
  \<^verbatim>\<open>None\<close> when the payload has none), what the password comparison answers, the URL an
  upload returns (\<^verbatim>\<open>None\<close>: the helper returns \<^verbatim>\<open>null\<close>) and the hash the creation hook
  stores. \<^verbatim>\<open>String.prototype.toLowerCase\<close> (line 73) is the case mapping of the JavaScript
  runtime over all cased letters; it is a parameter as well.
\<close>

datatype outcome = Resolves | Rejects string

record io =
  findOne_call :: outcome
  create_call :: outcome
  findById_call :: outcome
  findByIdAndUpdate_call :: outcome
  gen_findById_call :: outcome
  save_call :: outcome
  generateAccessToken :: "user \<Rightarrow> string option"
  generateRefreshToken :: "user \<Rightarrow> string option"
  jwt_verify :: "string \<Rightarrow> string + nat option"
  isPasswordCorrect :: "user \<Rightarrow> string option \<Rightarrow> string + bool"
  uploadOnCloudinary :: "string option \<Rightarrow> string option"
  hash_password :: "string \<Rightarrow> string"
  toLowerCase :: "string \<Rightarrow> string"

record req_files =
  files_avatar :: "string list option"
  files_coverImage :: "string list option"

text \<open>The request: the body fields and the cookie are strings or \<^verbatim>\<open>undefined\<close>;
  \<^verbatim>\<open>req.files\<close> is \<^verbatim>\<open>undefined\<close> or an object whose entries are arrays of uploaded files,
  each given by its \<^verbatim>\<open>path\<close>; \<^verbatim>\<open>req.user._id\<close> is set by the authorization middleware.\<close>

record request =
  body_fullName :: "string option"
  body_email :: "string option"
  body_password :: "string option"
  body_username :: "string option"
  body_refreshToken :: "string option"
  cookies_refreshToken :: "string option"
  files :: "req_files option"
  req_user_id :: nat

type_synonym 'a result = "(failure + 'a) \<times> store"


section \<open>generateAccessAndRefreshToken\<close>

definition token_error :: failure where
  "token_error = ApiError 500 ''Something went wrong while generating refresh and access token''"

text \<open>Lines 8-21. Everything thrown inside the \<^verbatim>\<open>try\<close> (a rejected lookup, the
  \<^verbatim>\<open>TypeError\<close> of calling a method on \<^verbatim>\<open>null\<close>, a signing error, a rejected save) is
  replaced by the same \<^verbatim>\<open>ApiError(500)\<close>. The value returned is the object
  \<^verbatim>\<open>{accessToken, refreshToken}\<close>.\<close>

definition generateAccessAndRefreshToken :: "io \<Rightarrow> nat \<Rightarrow> store \<Rightarrow> json result" where
  "generateAccessAndRefreshToken w userId st =
     (case gen_findById_call w of
        Rejects m \<Rightarrow> (Inl token_error, st)
      | Resolves \<Rightarrow>
          (case findById (Some userId) st of
             None \<Rightarrow> (Inl token_error, st)
           | Some u \<Rightarrow>
               (case generateAccessToken w u of
                  None \<Rightarrow> (Inl token_error, st)
                | Some accessToken \<Rightarrow>
                    (case generateRefreshToken w u of
                       None \<Rightarrow> (Inl token_error, st)
                     | Some refreshToken' \<Rightarrow>
                         (case save_call w of
                            Rejects m \<Rightarrow> (Inl token_error, st)
                          | Resolves \<Rightarrow>
                              (Inr (JObject [(''accessToken'', JString accessToken),
                                             (''refreshToken'', JString refreshToken')]),
                               set_refreshToken (user_id u) (Some refreshToken') st))))))"


section \<open>registerUser\<close>

text \<open>Line 39: \<^verbatim>\<open>field?.trim\<close> reads the property \<^verbatim>\<open>trim\<close> and does not call it:
  \<^verbatim>\<open>undefined\<close> for an absent field, the method itself for a string.\<close>

definition optional_trim :: "string option \<Rightarrow> json" where
  "optional_trim field = (case field of None \<Rightarrow> JUndefined | Some s \<Rightarrow> JFunction ''trim'')"

text \<open>Line 53: \<^verbatim>\<open>req.files?.avatar[0]?.path\<close>. The optional chain stops at an absent
  \<^verbatim>\<open>req.files\<close>; with \<^verbatim>\<open>req.files\<close> present, \<^verbatim>\<open>avatar[0]\<close> is an index into
  \<^verbatim>\<open>req.files.avatar\<close>, a \<^verbatim>\<open>TypeError\<close> when that is \<^verbatim>\<open>undefined\<close>. As everywhere,
  \<^verbatim>\<open>Thrown\<close> holds the message of the error.\<close>

definition avatar_type_error :: failure where
  "avatar_type_error = Thrown ''Cannot read properties of undefined (reading '0')''"

definition avatarLocalPath :: "request \<Rightarrow> failure + string option" where
  "avatarLocalPath req =
     (case files req of
        None \<Rightarrow> Inr None
      | Some fs \<Rightarrow>
          (case files_avatar fs of
             None \<Rightarrow> Inl avatar_type_error
           | Some [] \<Rightarrow> Inr None
           | Some (p # ps) \<Rightarrow> Inr (Some p)))"

text \<open>Line 54: \<^verbatim>\<open>req.files?.coverImage?.[0]?.path\<close>, optional at every step.\<close>

definition coverImageLocalPath :: "request \<Rightarrow> string option" where
  "coverImageLocalPath req =
     (case files req of
        None \<Rightarrow> None
      | Some fs \<Rightarrow>
          (case files_coverImage fs of
             None \<Rightarrow> None
           | Some [] \<Rightarrow> None
           | Some (p # ps) \<Rightarrow> Some p))"

definition lowercase_type_error :: failure where
  "lowercase_type_error =
     Thrown ''Cannot read properties of undefined (reading 'toLowerCase')''"

text \<open>Modelled from the spec: \<^verbatim>\<open>models/user.model.js\<close> is not part of the sources. The
  fields of a User Identity record are not optional, so \<^verbatim>\<open>User.create\<close> rejects a document
  with an \<^verbatim>\<open>undefined\<close> full name, email or password; otherwise, when the call resolves, the
  document is added under a fresh \<^verbatim>\<open>_id\<close>, with the password hashed by the creation hook
  and no refresh token.\<close>

definition create :: "io \<Rightarrow> string option \<Rightarrow> string \<Rightarrow> string \<Rightarrow> string option \<Rightarrow>
    string option \<Rightarrow> string \<Rightarrow> store \<Rightarrow> failure + user \<times> store" where
  "create w fullName' avatar' coverImage' email' password' username' st =
     (case create_call w of
        Rejects m \<Rightarrow> Inl (Thrown m)
      | Resolves \<Rightarrow>
          (case (fullName', email', password') of
             (Some fn, Some em, Some pw) \<Rightarrow>
               (let u = \<lparr>user_id = fresh_id st, username = username', email = em,
                          fullName = fn, avatar = avatar', coverImage = coverImage',
                          password = hash_password w pw, refreshToken = None\<rparr>
                in Inr (u, st @ [u]))
           | _ \<Rightarrow> Inl (Thrown ''ValidationError'')))"

definition registered_message :: string where
  "registered_message =
     [CHR 0xF0, CHR 0x9F, CHR 0x9F, CHR 0xA2] @ ''User registered Successfully !!''"

text \<open>Lines 23-90.\<close>

definition registerUser :: "io \<Rightarrow> request \<Rightarrow> store \<Rightarrow> response result" where
  "registerUser w req st =
     (let fullName' = body_fullName req; email' = body_email req;
          password' = body_password req; username' = body_username req
      in
      if list_ex (\<lambda>field. optional_trim field = JString []) [fullName', email', password', username']
      then (Inl (ApiError 400 ''All fields are required''), st)
      else
        (case findOne_call w of
           Rejects m \<Rightarrow> (Inl (Thrown m), st)
         | Resolves \<Rightarrow>
             if findOne username' email' st \<noteq> None
             then (Inl (ApiError 409 ''User already exists''), st)
             else
               (case avatarLocalPath req of
                  Inl e \<Rightarrow> (Inl e, st)
                | Inr avatarPath \<Rightarrow>
                    if \<not> truthy avatarPath
                    then (Inl (ApiError 400 ''Avatar file is required''), st)
                    else
                      (case uploadOnCloudinary w avatarPath of
                         None \<Rightarrow> (Inl (ApiError 400 ''Avatar file is required''), st)
                       | Some avatar_url \<Rightarrow>
                           (let coverImage_url =
                                  (case uploadOnCloudinary w (coverImageLocalPath req) of
                                     None \<Rightarrow> [] | Some url \<Rightarrow> url)
                            in
                            case username' of
                              None \<Rightarrow> (Inl lowercase_type_error, st)
                            | Some un \<Rightarrow>
                                (case create w fullName' avatar_url coverImage_url email' password'
                                        (toLowerCase w un) st of
                                   Inl e \<Rightarrow> (Inl e, st)
                                 | Inr (u, st') \<Rightarrow>
                                     (case findById_call w of
                                        Rejects m \<Rightarrow> (Inl (Thrown m), st')
                                      | Resolves \<Rightarrow>
                                          (case findById (Some (user_id u)) st' of
                                             None \<Rightarrow>
                                               (Inl (ApiError 500
                                                  ''Something went wrong while registering the user''), st')
                                           | Some createdUser \<Rightarrow>
                                               (Inr \<lparr>status = 201, cookies = [], clearedCookies = [],
                                                     body = ApiResponse 200
                                                       (select_minus [''password'', ''refreshToken'']
                                                          (Some createdUser))
                                                       registered_message\<rparr>, st')))))))))"


section \<open>loginUser\<close>

text \<open>Lines 92-150.\<close>

definition loginUser :: "io \<Rightarrow> request \<Rightarrow> store \<Rightarrow> response result" where
  "loginUser w req st =
     (let username' = body_username req; email' = body_email req; password' = body_password req
      in
      if \<not> (truthy username' \<or> truthy email')
      then (Inl (ApiError 400 ''username or email is required''), st)
      else
        (case findOne_call w of
           Rejects m \<Rightarrow> (Inl (Thrown m), st)
         | Resolves \<Rightarrow>
             (case findOne username' email' st of
                None \<Rightarrow> (Inl (ApiError 404 ''User does not exist''), st)
              | Some u \<Rightarrow>
                  (case isPasswordCorrect w u password' of
                     Inl m \<Rightarrow> (Inl (Thrown m), st)
                   | Inr isPasswordValid \<Rightarrow>
                       if \<not> isPasswordValid
                       then (Inl (ApiError 404 ''Invalid user credentials''), st)
                       else
                         (case generateAccessAndRefreshToken w (user_id u) st of
                            (Inl e, st') \<Rightarrow> (Inl e, st')
                          | (Inr tokens, st') \<Rightarrow>
                              (let refreshToken' = get_prop tokens ''refreshToken'';
                                   accessToken = get_prop tokens ''accessToken''
                               in
                               case findById_call w of
                                 Rejects m \<Rightarrow> (Inl (Thrown m), st')
                               | Resolves \<Rightarrow>
                                   (let loggedInUser =
                                          select_minus [''password'', ''refreshToken'']
                                            (findById (Some (user_id u)) st')
                                    in
                                    (Inr \<lparr>status = 200,
                                          cookies = [(''refreshToken'', refreshToken', options),
                                                     (''accessToken'', accessToken, options)],
                                          clearedCookies = [],
                                          body = ApiResponse 200
                                            (JObject [(''user'', loggedInUser),
                                                      (''accessToken'', accessToken),
                                                      (''refreshToken'', refreshToken')])
                                            ''User logged in Successfully!!''\<rparr>, st'))))))))"


section \<open>logoutUser\<close>

text \<open>\<^verbatim>\<open>User.findByIdAndUpdate(id, {$set: upd})\<close>, for the field the controller writes.
  The database library (mongoose) removes from an update the keys whose value is
  \<^verbatim>\<open>undefined\<close> before it sends the update: what is left of \<^verbatim>\<open>$set\<close> is written to
  the document with that \<^verbatim>\<open>_id\<close>, a string as it is and \<^verbatim>\<open>null\<close> as an empty field, and
  a \<^verbatim>\<open>$set\<close> with nothing left writes nothing.\<close>

definition findByIdAndUpdate_set :: "nat \<Rightarrow> (string \<times> json) list \<Rightarrow> store \<Rightarrow> store" where
  "findByIdAndUpdate_set n upd st =
     (case map_of (filter (\<lambda>kv. snd kv \<noteq> JUndefined) upd) ''refreshToken'' of
        Some (JString t) \<Rightarrow> set_refreshToken n (Some t) st
      | Some JNull \<Rightarrow> set_refreshToken n None st
      | _ \<Rightarrow> st)"

text \<open>Lines 152-181: the update is \<^verbatim>\<open>{$set: {refreshToken: undefined}}\<close>.\<close>

definition logoutUser :: "io \<Rightarrow> request \<Rightarrow> store \<Rightarrow> response result" where
  "logoutUser w req st =
     (case findByIdAndUpdate_call w of
        Rejects m \<Rightarrow> (Inl (Thrown m), st)
      | Resolves \<Rightarrow>
          (Inr \<lparr>status = 200, cookies = [],
                clearedCookies = [(''accessToken'', options), (''refreshToken'', options)],
                body = ApiResponse 200 (JObject []) ''User logged out''\<rparr>,
           findByIdAndUpdate_set (req_user_id req) [(''refreshToken'', JUndefined)] st))"


section \<open>refreshAccessToken\<close>

text \<open>Lines 190-220, the body of the \<^verbatim>\<open>try\<close>. The object returned by
  \<^verbatim>\<open>generateAccessAndRefreshToken\<close> is destructured by the keys \<^verbatim>\<open>accessToken\<close> and
  \<^verbatim>\<open>newRefreshToken\<close>.\<close>

definition refresh_try :: "io \<Rightarrow> string \<Rightarrow> store \<Rightarrow> response result" where
  "refresh_try w incomingRefreshToken st =
     (case jwt_verify w incomingRefreshToken of
        Inl m \<Rightarrow> (Inl (Thrown m), st)
      | Inr decoded_id \<Rightarrow>
          (case findById_call w of
             Rejects m \<Rightarrow> (Inl (Thrown m), st)
           | Resolves \<Rightarrow>
               (case findById decoded_id st of
                  None \<Rightarrow> (Inl (ApiError 401 ''Invalid RefreshToken''), st)
                | Some u \<Rightarrow>
                    if Some incomingRefreshToken \<noteq> refreshToken u
                    then (Inl (ApiError 401 ''Refresh token is expired or used''), st)
                    else
                      (case generateAccessAndRefreshToken w (user_id u) st of
                         (Inl e, st') \<Rightarrow> (Inl e, st')
                       | (Inr tokens, st') \<Rightarrow>
                           (let accessToken = get_prop tokens ''accessToken'';
                                newRefreshToken = get_prop tokens ''newRefreshToken''
                            in
                            (Inr \<lparr>status = 200,
                                  cookies = [(''accessToken'', accessToken, options),
                                             (''refreshToken'', newRefreshToken, options)],
                                  clearedCookies = [],
                                  body = ApiResponse 200
                                    (JObject [(''accessToken'', accessToken),
                                              (''refreshToken'', newRefreshToken)])
                                    ''Access token refreshed''\<rparr>, st'))))))"

text \<open>Lines 183-227: the token is taken from the cookie or else from the body; whatever the
  \<^verbatim>\<open>try\<close> throws is replaced by an \<^verbatim>\<open>ApiError(401)\<close> with the message of what was thrown
  (\<^verbatim>\<open>error?.message || "Invalid refresh token"\<close>).\<close>

definition refreshAccessToken :: "io \<Rightarrow> request \<Rightarrow> store \<Rightarrow> response result" where
  "refreshAccessToken w req st =
     (let incomingRefreshToken = js_or (cookies_refreshToken req) (body_refreshToken req)
      in
      case incomingRefreshToken of
        None \<Rightarrow> (Inl (ApiError 401 ''Unauthorized Request!!''), st)
      | Some t \<Rightarrow>
          if t = [] then (Inl (ApiError 401 ''Unauthorized Request!!''), st)
          else
            (case refresh_try w t st of
               (Inl e, st') \<Rightarrow>
                 (Inl (ApiError 401
                    (if error_message e = [] then ''Invalid refresh token'' else error_message e)),
                  st')
             | (Inr r, st') \<Rightarrow> (Inr r, st')))"


section \<open>Presenting a token\<close>

text \<open>The request a client sends when it presents, in the body, the value it read from a
  response: a string is sent as it is, anything else leaves the field out.\<close>

definition no_request :: request where
  "no_request = \<lparr>body_fullName = None, body_email = None, body_password = None,
                  body_username = None, body_refreshToken = None, cookies_refreshToken = None,
                  files = None, req_user_id = 0\<rparr>"

definition present :: "json \<Rightarrow> request" where
  "present v = no_request\<lparr>body_refreshToken := (case v of JString s \<Rightarrow> Some s | _ \<Rightarrow> None)\<rparr>"


section \<open>A sample run\<close>

text \<open>Collaborators that all answer: every database call resolves, tokens are the user name
  with a prefix and the serial number of the request, verification accepts the tokens that
  start with \<^verbatim>\<open>rt\<close> and decodes the identity 1, the password comparison compares with the
  stored hash, an upload returns a URL for a path and \<^verbatim>\<open>null\<close> for none. The strings of
  the sample run are ASCII, where lower-casing maps \<^verbatim>\<open>A\<close> to \<^verbatim>\<open>Z\<close> and leaves the rest.\<close>

definition ascii_lower :: "char \<Rightarrow> char" where
  "ascii_lower c =
     (if (65::nat) \<le> of_char c \<and> of_char c \<le> (90::nat)
      then char_of (of_char c + (32::nat)) else c)"

definition sample_io :: "string \<Rightarrow> io" where
  "sample_io n =
     \<lparr>findOne_call = Resolves, create_call = Resolves, findById_call = Resolves,
      findByIdAndUpdate_call = Resolves, gen_findById_call = Resolves, save_call = Resolves,
      generateAccessToken = (\<lambda>u. Some (''at.'' @ username u @ ''.'' @ n)),
      generateRefreshToken = (\<lambda>u. Some (''rt.'' @ username u @ ''.'' @ n)),
      jwt_verify = (\<lambda>t. if take 2 t = ''rt'' then Inr (Some 1) else Inl ''jwt malformed''),
      isPasswordCorrect = (\<lambda>u p. case p of None \<Rightarrow> Inl ''data and hash arguments required''
                                   | Some s \<Rightarrow> Inr (password u = ''#'' @ s)),
      uploadOnCloudinary = (\<lambda>p. case p of None \<Rightarrow> None | Some s \<Rightarrow> Some (''https://cdn/'' @ s)),
      hash_password = (\<lambda>s. ''#'' @ s),
      toLowerCase = map ascii_lower\<rparr>"

text \<open>Collaborators of which one fails, the rest answering as above: a signing method that
  throws, a database call that rejects.\<close>

definition sample_io_no_signing :: io where
  "sample_io_no_signing = (sample_io ''2'')\<lparr>generateAccessToken := (\<lambda>u. None)\<rparr>"

definition sample_io_create_down :: io where
  "sample_io_create_down = (sample_io ''1'')\<lparr>create_call := Rejects ''connection lost''\<rparr>"

definition sample_io_refetch_down :: io where
  "sample_io_refetch_down = (sample_io ''1'')\<lparr>findById_call := Rejects ''connection lost''\<rparr>"

definition sample_io_save_down :: io where
  "sample_io_save_down = (sample_io ''1'')\<lparr>save_call := Rejects ''connection lost''\<rparr>"

definition sample_io_update_down :: io where
  "sample_io_update_down = (sample_io ''1'')\<lparr>findByIdAndUpdate_call := Rejects ''connection lost''\<rparr>"

text \<open>Register: the request of a new user, the record it creates and the response; the same
  request with an empty full name; the same request with a cover image and no avatar file.\<close>

definition alice_register :: request where
  "alice_register =
     no_request\<lparr>body_fullName := Some ''alice'', body_email := Some ''alice@x.com'',
                body_password := Some ''pw123'', body_username := Some ''Alice'',
                files := Some \<lparr>files_avatar = Some [''a.png''], files_coverImage = None\<rparr>\<rparr>"

definition alice :: user where
  "alice = \<lparr>user_id = 1, username = ''alice'', email = ''alice@x.com'', fullName = ''alice'',
            avatar = ''https://cdn/a.png'', coverImage = [], password = ''#pw123'',
            refreshToken = None\<rparr>"

definition alice_public :: json where
  "alice_public =
     JObject [(''_id'', JNumber 1), (''username'', JString ''alice''),
              (''email'', JString ''alice@x.com''), (''fullName'', JString ''alice''),
              (''avatar'', JString ''https://cdn/a.png''), (''coverImage'', JString [])]"

definition sample_register_response :: response where
  "sample_register_response =
     \<lparr>status = 201, cookies = [], clearedCookies = [],
      body = ApiResponse 200 alice_public registered_message\<rparr>"

definition blank_register :: request where
  "blank_register = alice_register\<lparr>body_fullName := Some []\<rparr>"

definition blank_alice :: user where
  "blank_alice = alice\<lparr>fullName := []\<rparr>"

definition blank_register_response :: response where
  "blank_register_response =
     \<lparr>status = 201, cookies = [], clearedCookies = [],
      body = ApiResponse 200
               (JObject [(''_id'', JNumber 1), (''username'', JString ''alice''),
                         (''email'', JString ''alice@x.com''), (''fullName'', JString []),
                         (''avatar'', JString ''https://cdn/a.png''), (''coverImage'', JString [])])
               registered_message\<rparr>"

definition cover_only_register :: request where
  "cover_only_register =
     alice_register\<lparr>files := Some \<lparr>files_avatar = None, files_coverImage = Some [''c.png'']\<rparr>\<rparr>"

text \<open>Login: by email with the right password, with a wrong password, and for an email no
  record has; the record after the login and the response.\<close>

definition alice_login :: request where
  "alice_login = no_request\<lparr>body_email := Some ''alice@x.com'', body_password := Some ''pw123''\<rparr>"

definition sample_wrong_password :: request where
  "sample_wrong_password =
     no_request\<lparr>body_email := Some ''alice@x.com'', body_password := Some ''guess''\<rparr>"

definition sample_unknown_login :: request where
  "sample_unknown_login =
     no_request\<lparr>body_email := Some ''bob@x.com'', body_password := Some ''pw123''\<rparr>"

definition alice_logged_in :: user where
  "alice_logged_in = alice\<lparr>refreshToken := Some ''rt.alice.1''\<rparr>"

definition sample_login_response :: response where
  "sample_login_response =
     \<lparr>status = 200,
      cookies = [(''refreshToken'', JString ''rt.alice.1'', options),
                 (''accessToken'', JString ''at.alice.1'', options)],
      clearedCookies = [],
      body = ApiResponse 200
               (JObject [(''user'', alice_public), (''accessToken'', JString ''at.alice.1''),
                         (''refreshToken'', JString ''rt.alice.1'')])
               ''User logged in Successfully!!''\<rparr>"

text \<open>Refresh and Logout: the response of a successful Refresh with the access token it
  minted, and the Logout of the user with its response.\<close>

definition sample_refresh_response :: "string \<Rightarrow> response" where
  "sample_refresh_response a =
     \<lparr>status = 200,
      cookies = [(''accessToken'', JString a, options),
                 (''refreshToken'', JUndefined, options)],
      clearedCookies = [],
      body = ApiResponse 200
               (JObject [(''accessToken'', JString a), (''refreshToken'', JUndefined)])
               ''Access token refreshed''\<rparr>"

definition alice_logout :: request where
  "alice_logout = no_request\<lparr>req_user_id := 1\<rparr>"

definition sample_logout_response :: response where
  "sample_logout_response =
     \<lparr>status = 200, cookies = [],
      clearedCookies = [(''accessToken'', options), (''refreshToken'', options)],
      body = ApiResponse 200 (JObject []) ''User logged out''\<rparr>"


section \<open>Token generation and refresh: what a result determines\<close>


lemma generate_failure:
  "generateAccessAndRefreshToken w i st = (Inl e, st') \<Longrightarrow> e = token_error \<and> st' = st"
  by (auto simp: generateAccessAndRefreshToken_def split: outcome.splits option.splits)

lemma generate_success:
  "generateAccessAndRefreshToken w i st = (Inr tokens, st') \<Longrightarrow>
   \<exists>u a t. findById (Some i) st = Some u \<and> generateAccessToken w u = Some a \<and>
     generateRefreshToken w u = Some t \<and>
     tokens = JObject [(''accessToken'', JString a), (''refreshToken'', JString t)] \<and>
     st' = set_refreshToken (user_id u) (Some t) st"
  by (auto simp: generateAccessAndRefreshToken_def split: outcome.splits option.splits)

lemma findById_id: "findById (Some i) st = Some u \<Longrightarrow> user_id u = i"
  by (auto simp: findById_def find_Some_iff)

lemma refresh_try_success:
  assumes "refresh_try w t st = (Inr r, st')"
  shows "\<exists>i u a n. jwt_verify w t = Inr i \<and> findById i st = Some u \<and> refreshToken u = Some t \<and>
           generateAccessToken w u = Some a \<and> generateRefreshToken w u = Some n \<and>
           st' = set_refreshToken (user_id u) (Some n) st \<and>
           r = \<lparr>status = 200,
                cookies = [(''accessToken'', JString a, options), (''refreshToken'', JUndefined, options)],
                clearedCookies = [],
                body = ApiResponse 200 (JObject [(''accessToken'', JString a), (''refreshToken'', JUndefined)])
                         ''Access token refreshed''\<rparr>"
proof -
  from assms obtain i u tokens where
    v: "jwt_verify w t = Inr i" and f: "findById i st = Some u" and
    s: "refreshToken u = Some t" and
    g: "generateAccessAndRefreshToken w (user_id u) st = (Inr tokens, st')" and
    r: "r = \<lparr>status = 200,
             cookies = [(''accessToken'', get_prop tokens ''accessToken'', options),
                        (''refreshToken'', get_prop tokens ''newRefreshToken'', options)],
             clearedCookies = [],
             body = ApiResponse 200
                      (JObject [(''accessToken'', get_prop tokens ''accessToken''),
                                (''refreshToken'', get_prop tokens ''newRefreshToken'')])
                      ''Access token refreshed''\<rparr>"
    by (auto simp: refresh_try_def Let_def split: sum.splits outcome.splits option.splits if_splits prod.splits)
  from generate_success [OF g] obtain u' a n where
    f': "findById (Some (user_id u)) st = Some u'" and
    a: "generateAccessToken w u' = Some a" and n: "generateRefreshToken w u' = Some n" and
    tk: "tokens = JObject [(''accessToken'', JString a), (''refreshToken'', JString n)]" and
    st': "st' = set_refreshToken (user_id u') (Some n) st"
    by blast
  have "i = Some (user_id u)" using f by (cases i) (auto simp: findById_def find_Some_iff)
  with f f' have "u' = u" by simp
  with v f s a n tk st' r show ?thesis by simp
qed

lemma refresh_success:
  assumes "refreshAccessToken w req st = (Inr r, st')"
  shows "\<exists>t. js_or (cookies_refreshToken req) (body_refreshToken req) = Some t \<and> t \<noteq> [] \<and>
             refresh_try w t st = (Inr r, st')"
  using assms
  by (auto simp: refreshAccessToken_def Let_def split: option.splits if_splits sum.splits prod.splits)

lemma findById_set_refreshToken:
  "findById (Some m) (set_refreshToken n v st) =
     (if m = n then map_option (\<lambda>u. u\<lparr>refreshToken := v\<rparr>) (findById (Some m) st)
      else findById (Some m) st)"
  by (induction st) (auto simp: findById_def)

lemma sample_refresh:
  "refreshAccessToken (sample_io ''2'') (present (JString ''rt.alice.1'')) [alice_logged_in] =
     (Inr (sample_refresh_response ''at.alice.2''), [alice\<lparr>refreshToken := Some ''rt.alice.2''\<rparr>])"
  by code_simp

section \<open>Refresh: what the caller receives\<close>

text \<open>
  C1. A successful Refresh call mints a token pair and stores the new refresh token on the
  record of the user, as the claim says. It does not return it: the object of
  \<^verbatim>\<open>generateAccessAndRefreshToken\<close> has the keys \<^verbatim>\<open>accessToken\<close> and \<^verbatim>\<open>refreshToken\<close>
  and line 208 reads the key \<^verbatim>\<open>newRefreshToken\<close>, so for every successful call the
  \<^verbatim>\<open>refreshToken\<close> of the response body and the value given to the \<^verbatim>\<open>refreshToken\<close>
  cookie are \<^verbatim>\<open>undefined\<close>, while the store holds the newly minted token.
\<close>

theorem refresh_response_lacks_refresh_token:
  assumes "refreshAccessToken w req st = (Inr r, st')"
  shows "get_prop (data (body r)) ''refreshToken'' = JUndefined \<and>
         cookie_value r ''refreshToken'' = JUndefined \<and>
         (\<exists>u n. findById (Some (user_id u)) st = Some u \<and>
                generateRefreshToken w u = Some n \<and>
                st' = set_refreshToken (user_id u) (Some n) st \<and>
                findById (Some (user_id u)) st' = Some (u\<lparr>refreshToken := Some n\<rparr>))"
proof -
  from refresh_success [OF assms] obtain t where
    t: "refresh_try w t st = (Inr r, st')" by blast
  from refresh_try_success [OF t] obtain i u a n where
    f: "findById i st = Some u" and n: "generateRefreshToken w u = Some n" and
    st': "st' = set_refreshToken (user_id u) (Some n) st" and
    r: "r = \<lparr>status = 200,
             cookies = [(''accessToken'', JString a, options), (''refreshToken'', JUndefined, options)],
             clearedCookies = [],
             body = ApiResponse 200
                      (JObject [(''accessToken'', JString a), (''refreshToken'', JUndefined)])
                      ''Access token refreshed''\<rparr>"
    by blast
  have i: "i = Some (user_id u)" using f by (cases i) (auto simp: findById_def find_Some_iff)
  have "findById (Some (user_id u)) st' = Some (u\<lparr>refreshToken := Some n\<rparr>)"
    using f i st' by (simp add: findById_set_refreshToken)
  moreover have "get_prop (data (body r)) ''refreshToken'' = JUndefined"
    using r by (simp add: ApiResponse_def)
  moreover have "cookie_value r ''refreshToken'' = JUndefined"
    using r by simp
  ultimately show ?thesis using f i n st' by blast
qed

theorem refresh_response_lacks_refresh_token_witness:
  "refreshAccessToken (sample_io ''2'') (present (JString ''rt.alice.1'')) [alice_logged_in] =
     (Inr (sample_refresh_response ''at.alice.2''), [alice\<lparr>refreshToken := Some ''rt.alice.2''\<rparr>]) \<and>
   get_prop (data (body (sample_refresh_response ''at.alice.2''))) ''refreshToken'' = JUndefined \<and>
   cookie_value (sample_refresh_response ''at.alice.2'') ''refreshToken'' = JUndefined"
  using refresh_response_lacks_refresh_token [OF sample_refresh] sample_refresh by blast

section \<open>Refresh: the stored token decides\<close>

lemma refresh_needs_stored_token:
  assumes "refreshAccessToken w req st = (Inr r, st')"
  shows "\<exists>t i u. js_or (cookies_refreshToken req) (body_refreshToken req) = Some t \<and>
           jwt_verify w t = Inr i \<and> findById i st = Some u \<and> refreshToken u = Some t"
proof -
  from refresh_success [OF assms] obtain t where
    j: "js_or (cookies_refreshToken req) (body_refreshToken req) = Some t" and
    t: "refresh_try w t st = (Inr r, st')" by blast
  from refresh_try_success [OF t] j show ?thesis by blast
qed

lemma refresh_failure:
  "refreshAccessToken w req st = (Inl e, st') \<Longrightarrow> (\<exists>m. e = ApiError 401 m) \<and> st' = st"
  by (auto simp: refreshAccessToken_def refresh_try_def Let_def
      split: option.splits if_splits sum.splits prod.splits outcome.splits
      dest: generate_failure)

text \<open>Rotation, on the side of the store: once a Refresh call has succeeded with the token
  \<open>t\<close> and minted a different one, a later call that presents \<open>t\<close> again is rejected.\<close>

lemma superseded_token_rejected:
  assumes ok: "refreshAccessToken w req st = (Inr r, st')"
    and t: "js_or (cookies_refreshToken req) (body_refreshToken req) = Some t"
    and n: "\<And>u. generateRefreshToken w u \<noteq> Some t"
    and id: "jwt_verify w2 t = jwt_verify w t"
    and t2: "js_or (cookies_refreshToken req2) (body_refreshToken req2) = Some t"
  shows "\<exists>m. refreshAccessToken w2 req2 st' = (Inl (ApiError 401 m), st')"
proof -
  from refresh_success [OF ok] t have tr: "refresh_try w t st = (Inr r, st')" and ne: "t \<noteq> []"
    by auto
  from refresh_try_success [OF tr] obtain i u k where
    v: "jwt_verify w t = Inr i" and f: "findById i st = Some u" and
    k: "generateRefreshToken w u = Some k" and
    st': "st' = set_refreshToken (user_id u) (Some k) st"
    by blast
  have i: "i = Some (user_id u)" using f by (cases i) (auto simp: findById_def find_Some_iff)
  have f': "findById i st' = Some (u\<lparr>refreshToken := Some k\<rparr>)"
    using f i st' by (simp add: findById_set_refreshToken)
  have "k \<noteq> t" using n [of u] k by auto
  then show ?thesis
    using t2 ne id v f'
    by (auto simp: refreshAccessToken_def refresh_try_def split: outcome.splits)
qed

text \<open>
  C4. A Refresh call succeeds only if the presented token equals the stored one
  (\<open>refresh_needs_stored_token\<close>), and the store rotates (\<open>superseded_token_rejected\<close>).
  The caller does not take part in the rotation: after two successful Refresh calls in a
  row, the refresh token that the second call returned is \<^verbatim>\<open>undefined\<close> (line 208 reads
  the key \<^verbatim>\<open>newRefreshToken\<close>), and presenting what the second call returned is rejected
  with 401 like what the first call returned; the claim says the token from the second call
  still succeeds.
\<close>

theorem refresh_returned_tokens_rejected:
  assumes first: "refreshAccessToken w1 req1 st0 = (Inr r1, st1)"
    and second: "refreshAccessToken w2 req2 st1 = (Inr r2, st2)"
  shows "refreshAccessToken w3 (present (get_prop (data (body r2)) ''refreshToken'')) st2 =
           (Inl (ApiError 401 ''Unauthorized Request!!''), st2) \<and>
         refreshAccessToken w3 (present (get_prop (data (body r1)) ''refreshToken'')) st2 =
           (Inl (ApiError 401 ''Unauthorized Request!!''), st2)"
proof -
  have p: "refreshAccessToken w3 (present JUndefined) st2 =
             (Inl (ApiError 401 ''Unauthorized Request!!''), st2)"
    by (simp add: refreshAccessToken_def present_def no_request_def js_or_def truthy_def)
  from refresh_success [OF first] obtain t1 where "refresh_try w1 t1 st0 = (Inr r1, st1)" by blast
  from refresh_try_success [OF this]
  have r1: "get_prop (data (body r1)) ''refreshToken'' = JUndefined"
    by (auto simp: ApiResponse_def)
  from refresh_success [OF second] obtain t2 where "refresh_try w2 t2 st1 = (Inr r2, st2)" by blast
  from refresh_try_success [OF this]
  have r2: "get_prop (data (body r2)) ''refreshToken'' = JUndefined"
    by (auto simp: ApiResponse_def)
  show ?thesis using p r1 r2 by simp
qed

lemma sample_second_refresh:
  "refreshAccessToken (sample_io ''3'') (present (JString ''rt.alice.2''))
       [alice\<lparr>refreshToken := Some ''rt.alice.2''\<rparr>] =
     (Inr (sample_refresh_response ''at.alice.3''), [alice\<lparr>refreshToken := Some ''rt.alice.3''\<rparr>])"
  by code_simp

theorem refresh_returned_tokens_rejected_witness:
  "refreshAccessToken (sample_io ''2'') (present (JString ''rt.alice.1'')) [alice_logged_in] =
     (Inr (sample_refresh_response ''at.alice.2''), [alice\<lparr>refreshToken := Some ''rt.alice.2''\<rparr>]) \<and>
   refreshAccessToken (sample_io ''3'') (present (JString ''rt.alice.2''))
       [alice\<lparr>refreshToken := Some ''rt.alice.2''\<rparr>] =
     (Inr (sample_refresh_response ''at.alice.3''), [alice\<lparr>refreshToken := Some ''rt.alice.3''\<rparr>]) \<and>
   refreshAccessToken (sample_io ''4'')
       (present (get_prop (data (body (sample_refresh_response ''at.alice.3''))) ''refreshToken''))
       [alice\<lparr>refreshToken := Some ''rt.alice.3''\<rparr>] =
     (Inl (ApiError 401 ''Unauthorized Request!!''), [alice\<lparr>refreshToken := Some ''rt.alice.3''\<rparr>])"
  using refresh_returned_tokens_rejected [OF sample_refresh sample_second_refresh, of "sample_io ''4''"]
    sample_refresh sample_second_refresh
  by blast

section \<open>Failures of token generation\<close>

lemma login_token_failure:
  assumes "truthy (body_username req) \<or> truthy (body_email req)"
    and "findOne_call w = Resolves"
    and "findOne (body_username req) (body_email req) st = Some u"
    and "isPasswordCorrect w u (body_password req) = Inr True"
    and "fst (generateAccessAndRefreshToken w (user_id u) st) = Inl e"
  shows "loginUser w req st = (Inl token_error, st)"
proof -
  obtain st' where g: "generateAccessAndRefreshToken w (user_id u) st = (Inl e, st')"
    using assms(5) by (cases "generateAccessAndRefreshToken w (user_id u) st") auto
  from generate_failure [OF g] g assms(1-4) show ?thesis
    by (auto simp: loginUser_def Let_def)
qed

text \<open>
  C5. In Login a failure of token generation reaches the caller as the
  \<^verbatim>\<open>ApiError(500)\<close> that \<^verbatim>\<open>generateAccessAndRefreshToken\<close> throws (\<open>login_token_failure\<close>).
  In Refresh the call stands inside the \<^verbatim>\<open>try\<close> whose \<^verbatim>\<open>catch\<close> (lines 221-226) throws
  an \<^verbatim>\<open>ApiError(401)\<close> with the message of whatever was caught: the same failure reaches
  the caller as 401, an unauthorized error, where the claim says 500.
\<close>

theorem refresh_token_failure_is_401:
  assumes "js_or (cookies_refreshToken req) (body_refreshToken req) = Some t"
    and "t \<noteq> []"
    and "jwt_verify w t = Inr i"
    and "findById_call w = Resolves"
    and "findById i st = Some u"
    and "refreshToken u = Some t"
    and "fst (generateAccessAndRefreshToken w (user_id u) st) = Inl e"
  shows "refreshAccessToken w req st =
           (Inl (ApiError 401 ''Something went wrong while generating refresh and access token''), st)"
proof -
  obtain st' where g: "generateAccessAndRefreshToken w (user_id u) st = (Inl e, st')"
    using assms(7) by (cases "generateAccessAndRefreshToken w (user_id u) st") auto
  from generate_failure [OF g] have e: "e = token_error" and s: "st' = st" by auto
  have "refresh_try w t st = (Inl token_error, st)"
    using assms(3-6) g e s by (simp add: refresh_try_def)
  then show ?thesis using assms(1,2)
    by (simp add: refreshAccessToken_def token_error_def)
qed

lemma sample_signing_fails:
  "fst (generateAccessAndRefreshToken sample_io_no_signing (user_id alice_logged_in) [alice_logged_in])
     = Inl token_error"
  by code_simp

theorem refresh_token_failure_is_401_witness:
  "refreshAccessToken sample_io_no_signing (present (JString ''rt.alice.1'')) [alice_logged_in] =
     (Inl (ApiError 401 ''Something went wrong while generating refresh and access token''),
      [alice_logged_in])"
proof -
  have 1: "js_or (cookies_refreshToken (present (JString ''rt.alice.1'')))
             (body_refreshToken (present (JString ''rt.alice.1''))) = Some ''rt.alice.1''"
    by code_simp
  have 2: "''rt.alice.1'' \<noteq> []" by simp
  have 3: "jwt_verify sample_io_no_signing ''rt.alice.1'' = Inr (Some 1)" by code_simp
  have 4: "findById_call sample_io_no_signing = Resolves" by code_simp
  have 5: "findById (Some 1) [alice_logged_in] = Some alice_logged_in" by code_simp
  have 6: "refreshToken alice_logged_in = Some ''rt.alice.1''" by code_simp
  show ?thesis
    by (rule refresh_token_failure_is_401 [OF 1 2 3 4 5 6 sample_signing_fails])
qed

section \<open>Login: rejected credentials\<close>

text \<open>
  C7. A Login attempt whose username or email matches a record and whose password the
  comparison rejects is answered with status 404 (\<^verbatim>\<open>Invalid user credentials\<close>), the
  status that a Login attempt matching no record gets (\<^verbatim>\<open>User does not exist\<close>); the
  store is unchanged in both cases.
\<close>

theorem login_wrong_password_is_404:
  assumes "truthy (body_username req) \<or> truthy (body_email req)"
    and "findOne_call w = Resolves"
  shows "(findOne (body_username req) (body_email req) st = Some u \<and>
          isPasswordCorrect w u (body_password req) = Inr False \<longrightarrow>
            loginUser w req st = (Inl (ApiError 404 ''Invalid user credentials''), st)) \<and>
         (findOne (body_username req) (body_email req) st = None \<longrightarrow>
            loginUser w req st = (Inl (ApiError 404 ''User does not exist''), st))"
  using assms by (auto simp: loginUser_def Let_def)

theorem login_wrong_password_is_404_witness:
  "loginUser (sample_io ''1'') sample_wrong_password [alice] =
     (Inl (ApiError 404 ''Invalid user credentials''), [alice]) \<and>
   loginUser (sample_io ''1'') sample_unknown_login [alice] =
     (Inl (ApiError 404 ''User does not exist''), [alice])"
proof -
  have a1: "truthy (body_username sample_wrong_password) \<or> truthy (body_email sample_wrong_password)"
    by code_simp
  have a2: "findOne_call (sample_io ''1'') = Resolves" by code_simp
  have a3: "findOne (body_username sample_wrong_password) (body_email sample_wrong_password) [alice]
              = Some alice"
    by code_simp
  have a4: "isPasswordCorrect (sample_io ''1'') alice (body_password sample_wrong_password) = Inr False"
    by code_simp
  have b1: "truthy (body_username sample_unknown_login) \<or> truthy (body_email sample_unknown_login)"
    by code_simp
  have b3: "findOne (body_username sample_unknown_login) (body_email sample_unknown_login) [alice]
              = None"
    by code_simp
  from login_wrong_password_is_404 [OF a1 a2, of "[alice]" alice] a3 a4
  have "loginUser (sample_io ''1'') sample_wrong_password [alice] =
          (Inl (ApiError 404 ''Invalid user credentials''), [alice])"
    by blast
  moreover from login_wrong_password_is_404 [OF b1 a2, of "[alice]" alice] b3
  have "loginUser (sample_io ''1'') sample_unknown_login [alice] =
          (Inl (ApiError 404 ''User does not exist''), [alice])"
    by blast
  ultimately show ?thesis by blast
qed

section \<open>Register and Login: the response\<close>

lemma fresh_id_above: "u \<in> set st \<Longrightarrow> user_id u < fresh_id st"
proof -
  assume "u \<in> set st"
  then have "user_id u \<in> set (0 # map user_id st)" by simp
  then have "user_id u \<le> Max (set (0 # map user_id st))" by (intro Max_ge) auto
  then show ?thesis by (simp add: fresh_id_def Max.set_eq_fold [symmetric] del: set_simps)
qed

lemma find_append_None: "find P xs = None \<Longrightarrow> find P (xs @ ys) = find P ys"
  by (induction xs) (auto split: if_splits)

lemma findById_created:
  "user_id u = fresh_id st \<Longrightarrow> findById (Some (user_id u)) (st @ [u]) = Some u"
proof -
  assume i: "user_id u = fresh_id st"
  have "find (\<lambda>v. user_id v = fresh_id st) st = None"
    using fresh_id_above [of _ st] by (fastforce simp: find_None_iff)
  then show ?thesis using i by (simp add: findById_def find_append_None)
qed

lemma create_result:
  "create w fn av co em pw un st = Inr (u, st') \<Longrightarrow> st' = st @ [u] \<and> user_id u = fresh_id st"
  by (auto simp: create_def Let_def split: outcome.splits option.splits)

lemma register_success:
  assumes "registerUser w req st = (Inr r, st')"
  shows "\<exists>u. st' = st @ [u] \<and>
           r = \<lparr>status = 201, cookies = [], clearedCookies = [],
                body = ApiResponse 200 (select_minus [''password'', ''refreshToken''] (Some u))
                         registered_message\<rparr>"
proof -
  from assms obtain u fn av co em pw un where
    c: "create w fn av co em pw un st = Inr (u, st')" and
    r: "\<exists>cu. findById (Some (user_id u)) st' = Some cu \<and>
          r = \<lparr>status = 201, cookies = [], clearedCookies = [],
               body = ApiResponse 200 (select_minus [''password'', ''refreshToken''] (Some cu))
                        registered_message\<rparr>"
    by (auto simp: registerUser_def Let_def
        split: if_splits outcome.splits sum.splits option.splits prod.splits)
  from create_result [OF c] have s: "st' = st @ [u]" and i: "user_id u = fresh_id st" by auto
  from findById_created [OF i] s r show ?thesis by auto
qed

lemma select_minus_hides:
  "k \<in> set excluded \<Longrightarrow> \<not> has_prop (select_minus excluded doc) k"
  by (cases doc) (auto simp: select_minus_def map_of_eq_None_iff)

lemma login_success:
  assumes "loginUser w req st = (Inr r, st')"
  shows "\<exists>doc a t. get_prop (data (body r)) ''user'' = select_minus [''password'', ''refreshToken''] doc \<and>
           get_prop (data (body r)) ''accessToken'' = JString a \<and>
           get_prop (data (body r)) ''refreshToken'' = JString t \<and> status r = 200"
  using assms
  by (auto simp: loginUser_def Let_def ApiResponse_def
      split: if_splits outcome.splits sum.splits option.splits prod.splits
      dest!: generate_success)

text \<open>
  C9. The user record in the response of a successful Register (the \<^verbatim>\<open>data\<close> of the
  envelope) and of a successful Login (the \<^verbatim>\<open>user\<close> entry of the \<^verbatim>\<open>data\<close>) has neither a
  \<^verbatim>\<open>password\<close> field nor a \<^verbatim>\<open>refreshToken\<close> field: both come from
  \<^verbatim>\<open>.select("-password -refreshToken")\<close>.
\<close>

theorem responses_hide_credentials:
  "(registerUser w req st = (Inr r, st') \<longrightarrow>
      \<not> has_prop (data (body r)) ''password'' \<and> \<not> has_prop (data (body r)) ''refreshToken'') \<and>
   (loginUser w req st = (Inr r, st') \<longrightarrow>
      \<not> has_prop (get_prop (data (body r)) ''user'') ''password'' \<and>
      \<not> has_prop (get_prop (data (body r)) ''user'') ''refreshToken'')"
proof (intro conjI impI)
  assume "registerUser w req st = (Inr r, st')"
  from register_success [OF this] obtain u where
    "data (body r) = select_minus [''password'', ''refreshToken''] (Some u)"
    by (auto simp: ApiResponse_def)
  then show "\<not> has_prop (data (body r)) ''password''" "\<not> has_prop (data (body r)) ''refreshToken''"
    by (simp_all add: select_minus_hides)
next
  assume "loginUser w req st = (Inr r, st')"
  from login_success [OF this] obtain doc where
    "get_prop (data (body r)) ''user'' = select_minus [''password'', ''refreshToken''] doc"
    by blast
  then show "\<not> has_prop (get_prop (data (body r)) ''user'') ''password''"
    "\<not> has_prop (get_prop (data (body r)) ''user'') ''refreshToken''"
    by (simp_all add: select_minus_hides)
qed

lemma sample_register:
  "registerUser (sample_io ''0'') alice_register [] = (Inr sample_register_response, [alice])"
  by code_simp

lemma sample_login:
  "loginUser (sample_io ''1'') alice_login [alice] = (Inr sample_login_response, [alice_logged_in])"
  by code_simp

theorem responses_hide_credentials_witness:
  "registerUser (sample_io ''0'') alice_register [] = (Inr sample_register_response, [alice]) \<and>
   \<not> has_prop (data (body sample_register_response)) ''password'' \<and>
   \<not> has_prop (data (body sample_register_response)) ''refreshToken'' \<and>
   has_prop (JObject (toObject alice)) ''password'' \<and>
   loginUser (sample_io ''1'') alice_login [alice] = (Inr sample_login_response, [alice_logged_in]) \<and>
   \<not> has_prop (get_prop (data (body sample_login_response)) ''user'') ''password'' \<and>
   \<not> has_prop (get_prop (data (body sample_login_response)) ''user'') ''refreshToken'' \<and>
   has_prop (JObject (toObject alice_logged_in)) ''refreshToken''"
proof -
  have p: "has_prop (JObject (toObject alice)) ''password''"
    "has_prop (JObject (toObject alice_logged_in)) ''refreshToken''"
    by code_simp+
  from responses_hide_credentials
         [of "sample_io ''0''" alice_register "[]" sample_register_response "[alice]"]
       sample_register
  have 1: "\<not> has_prop (data (body sample_register_response)) ''password'' \<and>
           \<not> has_prop (data (body sample_register_response)) ''refreshToken''"
    by blast
  from responses_hide_credentials
         [of "sample_io ''1''" alice_login "[alice]" sample_login_response "[alice_logged_in]"]
       sample_login
  have 2: "\<not> has_prop (get_prop (data (body sample_login_response)) ''user'') ''password'' \<and>
           \<not> has_prop (get_prop (data (body sample_login_response)) ''user'') ''refreshToken''"
    by blast
  show ?thesis using p 1 2 sample_register sample_login by blast
qed

text \<open>
  C10. A successful Register answers with the HTTP status 201 (\<^verbatim>\<open>res.status(201)\<close>) and an
  envelope whose \<^verbatim>\<open>statusCode\<close> is 200 (\<^verbatim>\<open>new ApiResponse(200, ...)\<close>): the two differ.
\<close>

theorem register_status_201_envelope_200:
  assumes "registerUser w req st = (Inr r, st')"
  shows "status r = 201 \<and> statusCode (body r) = 200 \<and> status r \<noteq> statusCode (body r)"
  using register_success [OF assms] by (auto simp: ApiResponse_def)

theorem register_status_201_envelope_200_witness:
  "registerUser (sample_io ''0'') alice_register [] = (Inr sample_register_response, [alice]) \<and>
   status sample_register_response = 201 \<and> statusCode (body sample_register_response) = 200"
  using register_status_201_envelope_200 [OF sample_register] sample_register by blast

section \<open>Register: the checks on the request\<close>

lemma validation_never_fires:
  "\<not> list_ex (\<lambda>field. optional_trim field = JString []) fs"
  by (auto simp: list_ex_iff optional_trim_def split: option.splits)

lemma avatarLocalPath_error: "avatarLocalPath req = Inl e \<Longrightarrow> e = avatar_type_error"
  by (auto simp: avatarLocalPath_def split: option.splits list.splits)

lemma create_error: "create w fn av co em pw un st = Inl e \<Longrightarrow> \<exists>m. e = Thrown m"
  by (auto simp: create_def Let_def split: outcome.splits option.splits)

text \<open>
  C2. Line 39 compares the method \<^verbatim>\<open>field?.trim\<close> itself with the empty string, without
  calling it, so the check holds for no field that is a string or absent: no such Register
  request is answered with the \<^verbatim>\<open>ApiError(400, "All fields are required")\<close>. A request with an empty full name, a new
  username and email and an avatar passes on to \<^verbatim>\<open>User.create\<close>; when that resolves, the
  record is created with the empty name and the answer is 201. The claim says such a request
  is rejected with 400 and creates no record.
\<close>

theorem register_accepts_blank_field:
  "registerUser (sample_io ''0'') blank_register [] = (Inr blank_register_response, [blank_alice]) \<and>
   body_fullName blank_register = Some [] \<and>
   (\<forall>w req st. fst (registerUser w req st) \<noteq> Inl (ApiError 400 ''All fields are required''))"
proof -
  have run: "registerUser (sample_io ''0'') blank_register [] =
               (Inr blank_register_response, [blank_alice])"
    by code_simp
  have blank: "body_fullName blank_register = Some []" by code_simp
  have never: "fst (registerUser w req st) \<noteq> Inl (ApiError 400 ''All fields are required'')"
    for w req st
  proof
    assume a: "fst (registerUser w req st) = Inl (ApiError 400 ''All fields are required'')"
    obtain st' where "registerUser w req st = (Inl (ApiError 400 ''All fields are required''), st')"
      using a by (cases "registerUser w req st") auto
    then show False
      using validation_never_fires
        [of "[body_fullName req, body_email req, body_password req, body_username req]"]
      by (auto simp: registerUser_def Let_def avatar_type_error_def lowercase_type_error_def
          split: if_splits outcome.splits option.splits sum.splits prod.splits
          dest: avatarLocalPath_error create_error)
  qed
  show ?thesis using run blank never by blast
qed

text \<open>Where the avatar check works: with no \<^verbatim>\<open>req.files\<close>, with an empty \<^verbatim>\<open>avatar\<close> array or
  an empty path, or with an upload that returns \<^verbatim>\<open>null\<close>, a request for a new username
  and email is answered with \<^verbatim>\<open>ApiError(400, "Avatar file is required")\<close>.\<close>

lemma register_avatar_required:
  assumes "findOne_call w = Resolves"
    and "findOne (body_username req) (body_email req) st = None"
    and "avatarLocalPath req = Inr p"
    and "\<not> truthy p \<or> uploadOnCloudinary w p = None"
  shows "registerUser w req st = (Inl (ApiError 400 ''Avatar file is required''), st)"
  using assms validation_never_fires
    [of "[body_fullName req, body_email req, body_password req, body_username req]"]
  by (auto simp: registerUser_def Let_def)

text \<open>
  C8. Line 53 reads \<^verbatim>\<open>req.files?.avatar[0]?.path\<close>: the index \<^verbatim>\<open>[0]\<close> is not optional
  (line 54 writes \<^verbatim>\<open>coverImage?.[0]\<close>). When the request has files but no avatar file,
  \<^verbatim>\<open>req.files.avatar\<close> is \<^verbatim>\<open>undefined\<close> and a request for a new username and email ends
  in a \<^verbatim>\<open>TypeError\<close>, not in the \<^verbatim>\<open>ApiError(400)\<close> the claim says.
\<close>

theorem register_missing_avatar_type_error:
  assumes "findOne_call w = Resolves"
    and "findOne (body_username req) (body_email req) st = None"
    and "files req = Some fs"
    and "files_avatar fs = None"
  shows "registerUser w req st =
           (Inl (Thrown ''Cannot read properties of undefined (reading '0')''), st)"
  using assms validation_never_fires
    [of "[body_fullName req, body_email req, body_password req, body_username req]"]
  by (auto simp: registerUser_def Let_def avatarLocalPath_def avatar_type_error_def)

theorem register_missing_avatar_type_error_witness:
  "registerUser (sample_io ''0'') cover_only_register [] =
     (Inl (Thrown ''Cannot read properties of undefined (reading '0')''), [])"
proof -
  have 1: "findOne_call (sample_io ''0'') = Resolves" by code_simp
  have 2: "findOne (body_username cover_only_register) (body_email cover_only_register) [] = None"
    by code_simp
  have 3: "files cover_only_register = Some \<lparr>files_avatar = None, files_coverImage = Some [''c.png'']\<rparr>"
    by code_simp
  have 4: "files_avatar \<lparr>files_avatar = None, files_coverImage = Some [''c.png'']\<rparr> = None"
    by simp
  show ?thesis by (rule register_missing_avatar_type_error [OF 1 2 3 4])
qed

section \<open>Errors and the store\<close>

lemma logout_failure: "logoutUser w req st = (Inl e, st') \<Longrightarrow> st' = st"
  by (auto simp: logoutUser_def split: outcome.splits)

lemma register_failure:
  assumes "registerUser w req st = (Inl e, st')"
  shows "st' = st \<or> (\<exists>u m. findById_call w = Rejects m \<and> e = Thrown m \<and> st' = st @ [u])"
proof -
  have created: "findById (Some (user_id u)) s \<noteq> None"
    if "create w fn av co em pw un st = Inr (u, s)" for fn av co em pw un u s
    using create_result [OF that] findById_created [of u st] by auto
  show ?thesis
    using assms
    by (auto simp: registerUser_def Let_def
        split: if_splits outcome.splits option.splits sum.splits prod.splits
        dest: create_result created)
qed

lemma login_failure:
  assumes "loginUser w req st = (Inl e, st')"
  shows "st' = st \<or>
         (\<exists>u t m. findById_call w = Rejects m \<and> e = Thrown m \<and>
                  st' = set_refreshToken u (Some t) st)"
  using assms
  by (auto simp: loginUser_def Let_def
      split: if_splits outcome.splits option.splits sum.splits prod.splits
      dest: generate_failure generate_success)

text \<open>
  C6, as the claim states it, fails: there is no rollback. When the \<^verbatim>\<open>User.findById\<close> that
  follows \<^verbatim>\<open>User.create\<close> (line 77) rejects, Register ends in an error and the record it
  created stays; when the \<^verbatim>\<open>User.findById\<close> that follows the token generation (line 127)
  rejects, Login ends in an error and the refresh token it stored stays.
\<close>

theorem error_after_write_counterexample:
  "registerUser sample_io_refetch_down alice_register [] =
     (Inl (Thrown ''connection lost''), [alice]) \<and>
   [alice] \<noteq> [] \<and>
   loginUser sample_io_refetch_down alice_login [alice] =
     (Inl (Thrown ''connection lost''), [alice_logged_in]) \<and>
   [alice_logged_in] \<noteq> [alice]"
proof -
  have "registerUser sample_io_refetch_down alice_register [] =
          (Inl (Thrown ''connection lost''), [alice])"
    by code_simp
  moreover have "loginUser sample_io_refetch_down alice_login [alice] =
          (Inl (Thrown ''connection lost''), [alice_logged_in])"
    by code_simp
  moreover have "[alice_logged_in] \<noteq> [alice]"
    by (simp add: alice_logged_in_def alice_def)
  ultimately show ?thesis by simp
qed

text \<open>
  C6, amended. Refresh and Logout leave the store as it was whenever they end in an error.
  Register and Login leave the store as it was whenever they end in an error, except when
  the \<^verbatim>\<open>User.findById\<close> after their write rejects: then the error is that rejection, and
  the store has the record Register created, or the refresh token Login stored.
\<close>

theorem errors_keep_store_but_after_write:
  "(refreshAccessToken w req st = (Inl e, st') \<longrightarrow> st' = st) \<and>
   (logoutUser w req st = (Inl e, st') \<longrightarrow> st' = st) \<and>
   (registerUser w req st = (Inl e, st') \<longrightarrow>
      st' = st \<or> (\<exists>u m. findById_call w = Rejects m \<and> e = Thrown m \<and> st' = st @ [u])) \<and>
   (loginUser w req st = (Inl e, st') \<longrightarrow>
      st' = st \<or> (\<exists>u t m. findById_call w = Rejects m \<and> e = Thrown m \<and>
                     st' = set_refreshToken u (Some t) st))"
  using refresh_failure [of w req st e st'] logout_failure [of w req st e st']
    register_failure [of w req st e st'] login_failure [of w req st e st']
  by blast

theorem errors_keep_store_but_after_write_witness:
  "refreshAccessToken sample_io_save_down (present (JString ''rt.alice.1'')) [alice_logged_in] =
     (Inl (ApiError 401 ''Something went wrong while generating refresh and access token''),
      [alice_logged_in]) \<and>
   logoutUser sample_io_update_down alice_logout [alice_logged_in] =
     (Inl (Thrown ''connection lost''), [alice_logged_in]) \<and>
   registerUser sample_io_create_down alice_register [] = (Inl (Thrown ''connection lost''), []) \<and>
   loginUser sample_io_save_down alice_login [alice] = (Inl token_error, [alice])"
proof -
  have 1: "refreshAccessToken sample_io_save_down (present (JString ''rt.alice.1'')) [alice_logged_in] =
     (Inl (ApiError 401 ''Something went wrong while generating refresh and access token''),
      snd (refreshAccessToken sample_io_save_down (present (JString ''rt.alice.1'')) [alice_logged_in]))"
    by code_simp
  have 2: "logoutUser sample_io_update_down alice_logout [alice_logged_in] =
     (Inl (Thrown ''connection lost''),
      snd (logoutUser sample_io_update_down alice_logout [alice_logged_in]))"
    by code_simp
  have 3: "registerUser sample_io_create_down alice_register [] =
     (Inl (Thrown ''connection lost''), snd (registerUser sample_io_create_down alice_register []))"
    by code_simp
  have 4: "loginUser sample_io_save_down alice_login [alice] =
     (Inl token_error, snd (loginUser sample_io_save_down alice_login [alice]))"
    by code_simp
  have r: "findById_call sample_io_create_down = Resolves" "findById_call sample_io_save_down = Resolves"
    by code_simp+
  from errors_keep_store_but_after_write
    [of sample_io_save_down "present (JString ''rt.alice.1'')" "[alice_logged_in]"
        "ApiError 401 ''Something went wrong while generating refresh and access token''"
        "snd (refreshAccessToken sample_io_save_down (present (JString ''rt.alice.1'')) [alice_logged_in])"]
    1
  have a: "snd (refreshAccessToken sample_io_save_down (present (JString ''rt.alice.1'')) [alice_logged_in])
             = [alice_logged_in]" by blast
  from errors_keep_store_but_after_write
    [of sample_io_update_down alice_logout "[alice_logged_in]" "Thrown ''connection lost''"
        "snd (logoutUser sample_io_update_down alice_logout [alice_logged_in])"]
    2
  have b: "snd (logoutUser sample_io_update_down alice_logout [alice_logged_in]) = [alice_logged_in]"
    by blast
  from errors_keep_store_but_after_write
    [of sample_io_create_down alice_register "[]" "Thrown ''connection lost''"
        "snd (registerUser sample_io_create_down alice_register [])"]
    3 r
  have c: "snd (registerUser sample_io_create_down alice_register []) = []"
    by auto
  from errors_keep_store_but_after_write
    [of sample_io_save_down alice_login "[alice]" token_error
        "snd (loginUser sample_io_save_down alice_login [alice])"]
    4 r
  have d: "snd (loginUser sample_io_save_down alice_login [alice]) = [alice]"
    by auto
  show ?thesis using 1 2 3 4 a b c d by simp
qed

section \<open>Logout\<close>

lemma update_undefined_writes_nothing:
  "findByIdAndUpdate_set n [(''refreshToken'', JUndefined)] st = st"
  by (simp add: findByIdAndUpdate_set_def)

lemma logout_success:
  "logoutUser w req st = (Inr r, st') \<Longrightarrow> st' = st"
  by (auto simp: logoutUser_def update_undefined_writes_nothing split: outcome.splits)

text \<open>What line 199 does with a token that the document found under each id does not hold:
  the Refresh call is rejected, and the store stays as it is. A Logout that had emptied the
  field would have this effect.\<close>

lemma refresh_unheld_token:
  assumes "\<And>i u. findById i st = Some u \<Longrightarrow> refreshToken u \<noteq> Some t"
    and "js_or (cookies_refreshToken req) (body_refreshToken req) = Some t"
  shows "\<exists>m. refreshAccessToken w req st = (Inl (ApiError 401 m), st)"
proof (cases "refreshAccessToken w req st")
  case (Pair res st')
  show ?thesis
  proof (cases res)
    case (Inl e)
    with Pair refresh_failure [of w req st e st'] show ?thesis by auto
  next
    case (Inr r)
    with Pair refresh_needs_stored_token [of w req st r st'] assms show ?thesis by fastforce
  qed
qed

text \<open>
  C3. Logout hands \<^verbatim>\<open>{$set: {refreshToken: undefined}}\<close> to the database library, which
  removes the \<^verbatim>\<open>undefined\<close> key: nothing is written, and a Logout that succeeded leaves
  the store, with the stored refresh token, as it was. Every Refresh attempt after the
  Logout is therefore answered as it would have been before it; an attempt that presents the
  refresh token that was valid before the Logout succeeds with 200, where the claim says it
  is rejected with 401.
\<close>

theorem logout_keeps_refresh_token:
  assumes "logoutUser w req st = (Inr r, st')"
  shows "st' = st \<and>
         findById (Some (req_user_id req)) st' = findById (Some (req_user_id req)) st \<and>
         refreshAccessToken w2 req2 st' = refreshAccessToken w2 req2 st"
  using logout_success [OF assms] by simp

lemma sample_logout:
  "logoutUser (sample_io ''4'') alice_logout [alice_logged_in] =
     (Inr sample_logout_response, [alice_logged_in])"
  by code_simp

lemma sample_refresh_after_logout:
  "refreshAccessToken (sample_io ''5'') (present (JString ''rt.alice.1'')) [alice_logged_in] =
     (Inr (sample_refresh_response ''at.alice.5''), [alice\<lparr>refreshToken := Some ''rt.alice.5''\<rparr>])"
  by code_simp

theorem logout_keeps_refresh_token_witness:
  "loginUser (sample_io ''1'') alice_login [alice] = (Inr sample_login_response, [alice_logged_in]) \<and>
   logoutUser (sample_io ''4'') alice_logout [alice_logged_in] =
     (Inr sample_logout_response, [alice_logged_in]) \<and>
   refreshToken alice_logged_in = Some ''rt.alice.1'' \<and>
   refreshAccessToken (sample_io ''5'') (present (JString ''rt.alice.1'')) [alice_logged_in] =
     (Inr (sample_refresh_response ''at.alice.5''), [alice\<lparr>refreshToken := Some ''rt.alice.5''\<rparr>]) \<and>
   status (sample_refresh_response ''at.alice.5'') = 200"
proof -
  have held: "refreshToken alice_logged_in = Some ''rt.alice.1''" by code_simp
  have ok: "status (sample_refresh_response ''at.alice.5'') = 200" by code_simp
  from logout_keeps_refresh_token
         [OF sample_logout, of "sample_io ''5''" "present (JString ''rt.alice.1'')"]
    sample_login sample_logout sample_refresh_after_logout held ok
  show ?thesis by blast
qed

end
